theory Spec2Isabelle
  imports Complex_Main
begin

section \<open>The navmesh component: data model\<close>

text \<open>
  The component keeps an entity on top of walkable geometry.  Its two methods are
  \<^verbatim>\<open>update\<close> (run by the host at initialisation and whenever a property changes) and
  \<^verbatim>\<open>tick\<close> (run once per frame).  JavaScript numbers are modelled as real numbers:
  rounding of IEEE doubles is not part of the model.  The scene graph, the DOM and the
  ray caster belong to the host libraries; what the component reads from them on one
  frame is collected in the records \<open>document\<close> and \<open>frame\<close>.
\<close>

datatype vec3 = Vector3 (vx: real) (vy: real) (vz: real)

type_synonym element = nat

datatype object3D = Object3D (el: element)

datatype error = TypeError | SyntaxError

text \<open>The \<^verbatim>\<open>far\<close> limit of the ray caster: a finite length or \<^verbatim>\<open>Infinity\<close>.\<close>

datatype far = Far real | Infinity

text \<open>One entry of the array filled by \<^verbatim>\<open>raycaster.intersectObjects\<close>.\<close>

record intersection =
  object :: object3D
  point :: vec3
  distanceAlongRay :: real

text \<open>
  What the DOM answers at configuration time.  A selector that is not valid CSS
  (the empty string included) makes the query throw.
\<close>

record document =
  querySelectorAll :: "string \<Rightarrow> error + element list"
  querySelector :: "element \<Rightarrow> string \<Rightarrow> error + element option"

text \<open>
  What the scene graph answers during one frame: the world position of an element's
  object, the local position of an element other than the component's own, the
  \<^verbatim>\<open>worldToLocal\<close> conversion of an element's parent, and the ordered hit list of a
  downward ray from an origin with a \<^verbatim>\<open>far\<close> limit against a list of objects
  (recursive).  \<open>delta\<close> is the elapsed time in milliseconds passed to \<^verbatim>\<open>tick\<close>.
\<close>

record frame =
  delta :: real
  getWorldPosition :: "element \<Rightarrow> vec3"
  localPosition :: "element \<Rightarrow> vec3"
  parentWorldToLocal :: "element \<Rightarrow> vec3 \<Rightarrow> vec3"
  intersectObjects :: "object3D list \<Rightarrow> vec3 \<Rightarrow> far \<Rightarrow> intersection list"

text \<open>
  The variables \<^verbatim>\<open>yVel\<close> and \<^verbatim>\<open>firstTry\<close> are declared inside the function expression
  that is evaluated once, when the component is registered, to produce \<^verbatim>\<open>tick\<close>.
  There is one copy of them, whatever the number of component instances.
\<close>

record closure =
  yVel :: real
  firstTry :: bool

text \<open>
  The fields of one component instance: its element, its \<^verbatim>\<open>data\<close> (the schema
  properties), and the members assigned by \<^verbatim>\<open>update\<close> and \<^verbatim>\<open>tick\<close>.
  \<open>position\<close> is \<^verbatim>\<open>this.el.object3D.position\<close>.
\<close>

record component =
  this_el :: element
  enabled :: bool
  navmesh :: string
  fall :: real
  height :: real
  exclude :: string
  data_xzOrigin :: string
  lastPosition :: "vec3 option"
  excludes :: "element list"
  objects :: "object3D list"
  xzOrigin :: "element option"
  position :: vec3

section \<open>Vector operations used by the component\<close>

definition subVectors :: "vec3 \<Rightarrow> vec3 \<Rightarrow> vec3" where
  "subVectors a b = Vector3 (vx a - vx b) (vy a - vy b) (vz a - vz b)"

definition addVector :: "vec3 \<Rightarrow> vec3 \<Rightarrow> vec3" where
  "addVector a b = Vector3 (vx a + vx b) (vy a + vy b) (vz a + vz b)"

definition multiplyScalar :: "vec3 \<Rightarrow> real \<Rightarrow> vec3" where
  "multiplyScalar a s = Vector3 (vx a * s) (vy a * s) (vz a * s)"

definition addY :: "vec3 \<Rightarrow> real \<Rightarrow> vec3" where
  "addY a d = Vector3 (vx a) (vy a + d) (vz a)"

definition setY :: "vec3 \<Rightarrow> real \<Rightarrow> vec3" where
  "setY a v = Vector3 (vx a) v (vz a)"

text \<open>
  \<^verbatim>\<open>v.applyAxisAngle(down, angle)\<close> with \<^verbatim>\<open>down = (0,-1,0)\<close>: the rotation of
  \<open>v\<close> by \<open>angle\<close> radians about the downward axis.
\<close>

definition applyAxisAngle_down :: "vec3 \<Rightarrow> real \<Rightarrow> vec3" where
  "applyAxisAngle_down v angle =
     Vector3 (vx v * cos angle - vz v * sin angle) (vy v) (vz v * cos angle + vx v * sin angle)"

definition distanceTo :: "vec3 \<Rightarrow> vec3 \<Rightarrow> real" where
  "distanceTo a b = sqrt ((vx a - vx b)\<^sup>2 + (vy a - vy b)\<^sup>2 + (vz a - vz b)\<^sup>2)"

section \<open>update\<close>

record update_result =
  u_component :: component
  u_warnings :: "string list"
  u_thrown :: "error option"

text \<open>
  \<^verbatim>\<open>Array.from\<close> always returns an array, so the value it produces is never
  \<^verbatim>\<open>null\<close>; the datatype keeps the comparison \<^verbatim>\<open>els === null\<close> of the source.
\<close>

datatype js_array = Null | Array "element list"

definition Array_from :: "element list \<Rightarrow> js_array" where
  "Array_from xs = Array xs"

definition update :: "document \<Rightarrow> component \<Rightarrow> update_result" where
  "update doc c =
    (let c1 = c\<lparr>lastPosition := None\<rparr> in
     case (if exclude c1 \<noteq> [] then querySelectorAll doc (exclude c1) else Inr []) of
       Inl e \<Rightarrow> \<lparr>u_component = c1, u_warnings = [], u_thrown = Some e\<rparr>
     | Inr ex \<Rightarrow>
        (let c2 = c1\<lparr>excludes := ex\<rparr> in
         case querySelectorAll doc (navmesh c2) of
           Inl e \<Rightarrow> \<lparr>u_component = c2, u_warnings = [], u_thrown = Some e\<rparr>
         | Inr found \<Rightarrow>
            (let els = Array_from found;
                 (c3, warnings) =
                   (if els = Null
                    then (c2\<lparr>objects := []\<rparr>, [''navmesh-physics: Did not match any elements''])
                    else (c2\<lparr>objects := (case els of Null \<Rightarrow> [] | Array xs \<Rightarrow> map Object3D xs)
                                           @ map Object3D (excludes c2)\<rparr>, []))
             in if data_xzOrigin c3 \<noteq> []
                then (case querySelector doc (this_el c3) (data_xzOrigin c3) of
                        Inl e \<Rightarrow> \<lparr>u_component = c3, u_warnings = warnings, u_thrown = Some e\<rparr>
                      | Inr r \<Rightarrow> \<lparr>u_component = c3\<lparr>xzOrigin := r\<rparr>, u_warnings = warnings,
                                  u_thrown = None\<rparr>)
                else \<lparr>u_component = c3\<lparr>xzOrigin := Some (this_el c3)\<rparr>, u_warnings = warnings,
                       u_thrown = None\<rparr>)))"


section \<open>tick\<close>

definition scanPattern :: "(real \<times> real) list" where
  "scanPattern =
     [(0, 1), (0, 0.5), (30, 0.4), (-30, 0.4), (60, 0.2), (-60, 0.2), (80, 0.06), (-80, 0.06)]"

definition gravity :: real where
  "gravity = -1"

definition maxYVelocity :: real where
  "maxYVelocity = 0.5"

text \<open>
  The state the scan loop works on: the velocity, the entity's local position, the last
  position, the flag \<^verbatim>\<open>didHit\<close>, and the rays cast so far (origin and \<^verbatim>\<open>far\<close>; the
  direction is always \<^verbatim>\<open>down\<close>).  The list of rays is not a variable of the source: it
  records the calls of \<^verbatim>\<open>intersectObjects\<close>.
\<close>

record scan =
  s_yVel :: real
  s_position :: vec3
  s_lastPosition :: vec3
  didHit :: bool
  casts :: "(vec3 \<times> far) list"

text \<open>The start of the ray for one entry of the pattern.\<close>

definition rayStart :: "component \<Rightarrow> vec3 \<Rightarrow> vec3 \<Rightarrow> real \<Rightarrow> real \<Rightarrow> vec3" where
  "rayStart c nextPosition lastPos angle distance =
    (let tempVec = subVectors nextPosition lastPos;
         tempVec = applyAxisAngle_down tempVec (angle * pi / 180);
         tempVec = multiplyScalar tempVec distance;
         tempVec = addVector tempVec lastPos;
         tempVec = addY tempVec maxYVelocity;
         tempVec = addY tempVec (- height c)
     in tempVec)"

definition rayFar :: "component \<Rightarrow> far" where
  "rayFar c = (if fall c > 0 then Far (fall c + maxYVelocity) else Infinity)"

text \<open>
  \<^verbatim>\<open>raycaster.set(tempVec, down)\<close>, the assignment of \<^verbatim>\<open>raycaster.far\<close> and
  \<^verbatim>\<open>raycaster.intersectObjects(this.objects, true, results)\<close> for one entry of the pattern.
  The array \<^verbatim>\<open>results\<close> is empty before every call: the source empties it whenever a
  call has filled it.
\<close>

definition castRay :: "frame \<Rightarrow> component \<Rightarrow> vec3 \<Rightarrow> vec3 \<Rightarrow> real \<Rightarrow> real \<Rightarrow> intersection list" where
  "castRay f c nextPosition lastPos angle distance =
     intersectObjects f (objects c) (rayStart c nextPosition lastPos angle distance) (rayFar c)"

text \<open>The inner loop over the results: is one of the hits on an element of \<^verbatim>\<open>excludes\<close>?\<close>

fun anyExcluded :: "element list \<Rightarrow> intersection list \<Rightarrow> bool" where
  "anyExcluded ex [] = False"
| "anyExcluded ex (result # results) =
     (if el (object result) \<in> set ex then True else anyExcluded ex results)"

text \<open>
  \<^verbatim>\<open>this.xzOrigin.object3D.position\<close>: the entity's own position when the origin is
  the component's element, the host's answer otherwise.
\<close>

definition originPosition :: "frame \<Rightarrow> component \<Rightarrow> element \<Rightarrow> vec3 \<Rightarrow> vec3" where
  "originPosition f c origin pos = (if origin = this_el c then pos else localPosition f origin)"

text \<open>The body of the loop after a list of results without excluded element.\<close>

definition accept :: "frame \<Rightarrow> component \<Rightarrow> element \<Rightarrow> vec3 \<Rightarrow> vec3 \<Rightarrow> scan \<Rightarrow> scan" where
  "accept f c origin nextPosition hitPoint s =
    (let hitPos = addY hitPoint (height c);
         (yv, hitPos) =
            (if vy nextPosition - (vy hitPos - s_yVel s * 2) > 0.01
             then (let yv = s_yVel s + max (gravity * delta f * 0.001) (- maxYVelocity)
                   in (yv, setY hitPos (vy nextPosition + yv)))
             else (0, hitPos));
         tempVec = hitPos;
         tempVec = parentWorldToLocal f origin tempVec;
         tempVec = subVectors tempVec (originPosition f c origin (s_position s));
         tempVec = (if data_xzOrigin c \<noteq> []
                    then addY tempVec (vy (originPosition f c origin (s_position s)))
                    else tempVec)
     in s\<lparr>s_yVel := yv, s_position := addVector (s_position s) tempVec,
           s_lastPosition := hitPos, didHit := True\<rparr>)"

fun scanPatternLoop ::
  "frame \<Rightarrow> component \<Rightarrow> element \<Rightarrow> vec3 \<Rightarrow> (real \<times> real) list \<Rightarrow> scan \<Rightarrow> scan" where
  "scanPatternLoop f c origin nextPosition [] s = s"
| "scanPatternLoop f c origin nextPosition ((angle, distance) # rest) s =
    (let s1 = s\<lparr>casts := casts s @
                   [(rayStart c nextPosition (s_lastPosition s) angle distance, rayFar c)]\<rparr>
     in case castRay f c nextPosition (s_lastPosition s) angle distance of
          [] \<Rightarrow> scanPatternLoop f c origin nextPosition rest s1
        | result # results \<Rightarrow>
            if anyExcluded (excludes c) (result # results)
            then scanPatternLoop f c origin nextPosition rest s1
            else accept f c origin nextPosition (point result) s1)"

record tick_result =
  t_closure :: closure
  t_component :: component
  t_rays :: "(vec3 \<times> far) list"
  t_thrown :: "error option"

text \<open>
  The position sampled from the origin: its world position, lowered by the origin's
  local height when an origin selector is configured.
\<close>

definition samplePosition :: "frame \<Rightarrow> component \<Rightarrow> element \<Rightarrow> vec3" where
  "samplePosition f c origin =
    (let p = getWorldPosition f origin
     in if data_xzOrigin c \<noteq> [] then addY p (- vy (originPosition f c origin (position c))) else p)"

definition returned :: "closure \<Rightarrow> component \<Rightarrow> tick_result" where
  "returned k c = \<lparr>t_closure = k, t_component = c, t_rays = [], t_thrown = None\<rparr>"

definition threw :: "closure \<Rightarrow> component \<Rightarrow> tick_result" where
  "threw k c = \<lparr>t_closure = k, t_component = c, t_rays = [], t_thrown = Some TypeError\<rparr>"

text \<open>The state of the loop before its first iteration.\<close>

definition beforeScan :: "closure \<Rightarrow> component \<Rightarrow> vec3 \<Rightarrow> scan" where
  "beforeScan k c lastPos =
     \<lparr>s_yVel = yVel k, s_position = position c, s_lastPosition = lastPos, didHit = False,
      casts = []\<rparr>"

text \<open>
  The end of \<^verbatim>\<open>tick\<close>, after the loop: \<^verbatim>\<open>firstTry\<close> is cleared after a hit, and the
  entity is put back on the last position when there was no hit and \<^verbatim>\<open>firstTry\<close> is
  clear.
\<close>

definition afterScan :: "frame \<Rightarrow> closure \<Rightarrow> component \<Rightarrow> scan \<Rightarrow> tick_result" where
  "afterScan f k c s =
    (let first = (if didHit s then False else firstTry k);
         pos = (if \<not> first \<and> \<not> didHit s
                then parentWorldToLocal f (this_el c) (s_lastPosition s)
                else s_position s)
     in \<lparr>t_closure = \<lparr>yVel = s_yVel s, firstTry = first\<rparr>,
         t_component = c\<lparr>lastPosition := Some (s_lastPosition s), position := pos\<rparr>,
         t_rays = casts s, t_thrown = None\<rparr>)"

text \<open>
  One call of \<^verbatim>\<open>tick\<close>.  When \<^verbatim>\<open>this.xzOrigin\<close> is \<^verbatim>\<open>null\<close> the first access to
  \<^verbatim>\<open>this.xzOrigin.object3D\<close> throws; the assignments made before that stay.
\<close>

definition tick :: "frame \<Rightarrow> closure \<Rightarrow> component \<Rightarrow> tick_result" where
  "tick f k c =
    (if \<not> enabled c then returned k c
     else case xzOrigin c of
       None \<Rightarrow>
         (if lastPosition c = None
          then threw (k\<lparr>firstTry := True\<rparr>) (c\<lparr>lastPosition := Some (Vector3 0 0 0)\<rparr>)
          else if objects c = [] then returned k c
          else threw k c)
     | Some origin \<Rightarrow>
         (let (k1, lastPos) =
                (case lastPosition c of
                   None \<Rightarrow> (k\<lparr>firstTry := True\<rparr>, samplePosition f c origin)
                 | Some p \<Rightarrow> (k, p));
              c1 = c\<lparr>lastPosition := Some lastPos\<rparr>
          in if objects c1 = [] then returned k1 c1
             else
              (let nextPosition = samplePosition f c1 origin
               in if distanceTo nextPosition lastPos \<le> 0.01 then returned k1 c1
                  else afterScan f k1 c1
                         (scanPatternLoop f c1 origin nextPosition scanPattern
                            (beforeScan k1 c1 lastPos)))))"

text \<open>
  Several entities can carry the component.  Their instances have their own fields and
  run the same \<^verbatim>\<open>tick\<close> function, hence the same \<open>closure\<close>.
\<close>

record world =
  shared :: closure
  instances :: "component list"

definition tickInstance :: "frame \<Rightarrow> nat \<Rightarrow> world \<Rightarrow> world" where
  "tickInstance f i w =
    (if i < length (instances w)
     then (let r = tick f (shared w) (instances w ! i)
           in w\<lparr>shared := t_closure r, instances := (instances w)[i := t_component r]\<rparr>)
     else w)"

section \<open>Notions used to state the properties\<close>

text \<open>
  An entry of the pattern is passed over when its ray gives no result or a result on an
  excluded element; the ray recorded for an entry.
\<close>

definition rejected :: "component \<Rightarrow> intersection list \<Rightarrow> bool" where
  "rejected c results \<longleftrightarrow> results = [] \<or> anyExcluded (excludes c) results"

definition rayOf :: "component \<Rightarrow> vec3 \<Rightarrow> vec3 \<Rightarrow> real \<times> real \<Rightarrow> vec3 \<times> far" where
  "rayOf c nextPosition lastPos entry =
     (rayStart c nextPosition lastPos (fst entry) (snd entry), rayFar c)"

text \<open>
  The conditions under which \<^verbatim>\<open>tick\<close> gets to its loop: the component is enabled, its
  origin is resolved, a last position \<open>lastPos\<close> is stored, there are objects to
  intersect, and the sampled position is more than 0.01 away from the last position.
\<close>

definition reachesScan :: "frame \<Rightarrow> component \<Rightarrow> element \<Rightarrow> vec3 \<Rightarrow> bool" where
  "reachesScan f c origin lastPos \<longleftrightarrow>
     enabled c \<and> xzOrigin c = Some origin \<and> lastPosition c = Some lastPos \<and> objects c \<noteq> []
     \<and> \<not> distanceTo (samplePosition f c origin) lastPos \<le> 0.01"

section \<open>A scene to run the component on\<close>

text \<open>
  A floor (element 1) at height \<open>level\<close>; a low wall (element 2) whose top is 0.3 above
  the floor, where \<open>x \<ge> 0.45\<close> and \<open>\<bar>z\<bar> \<le> 0.1\<close>; a pipe (element 3) buried 0.3 under
  the floor where \<open>z < -0.1\<close>.  A downward ray meets the horizontal surfaces below its
  origin, the nearest first, as far as \<^verbatim>\<open>far\<close> allows, and only those of the objects it
  is given.
\<close>

definition surfaceHit :: "element \<Rightarrow> real \<Rightarrow> vec3 \<Rightarrow> intersection" where
  "surfaceHit e level origin =
     \<lparr>object = Object3D e, point = Vector3 (vx origin) level (vz origin),
      distanceAlongRay = vy origin - level\<rparr>"

definition withinFar :: "far \<Rightarrow> real \<Rightarrow> bool" where
  "withinFar reach d = (case reach of Far m \<Rightarrow> d \<le> m | Infinity \<Rightarrow> True)"

definition sceneHits :: "real \<Rightarrow> object3D list \<Rightarrow> vec3 \<Rightarrow> far \<Rightarrow> intersection list" where
  "sceneHits level objs origin reach =
     filter (\<lambda>h. object h \<in> set objs \<and> 0 \<le> distanceAlongRay h
                 \<and> withinFar reach (distanceAlongRay h))
       ((if 0.45 \<le> vx origin \<and> \<bar>vz origin\<bar> \<le> 0.1
         then [surfaceHit 2 (level + 0.3) origin] else [])
        @ [surfaceHit 1 level origin]
        @ (if vz origin < -0.1 then [surfaceHit 3 (level - 0.3) origin] else []))"

text \<open>
  A frame of that scene: every parent has the identity transform, and the entity of
  element \<open>e\<close> is at world position \<open>worldPos e\<close>.
\<close>

definition sceneFrame :: "real \<Rightarrow> real \<Rightarrow> (element \<Rightarrow> vec3) \<Rightarrow> frame" where
  "sceneFrame level dt worldPos =
     \<lparr>delta = dt, getWorldPosition = worldPos, localPosition = (\<lambda>e. Vector3 0 0 0),
      parentWorldToLocal = (\<lambda>e p. p), intersectObjects = sceneHits level\<rparr>"

text \<open>The page of the scene: what its selectors match.\<close>

definition page :: document where
  "page =
     \<lparr>querySelectorAll =
        (\<lambda>sel. if sel = [] then Inl SyntaxError
               else if sel = ''.floor'' then Inr [1]
               else if sel = ''.wall'' then Inr [2, 3]
               else Inr []),
      querySelector = (\<lambda>e sel. if sel = [] then Inl SyntaxError else Inr None)\<rparr>"

text \<open>
  The component of entity 0 configured on the floor with the wall and the pipe excluded,
  with a given \<^verbatim>\<open>fall\<close>, last position and entity position.
\<close>

definition walker :: "real \<Rightarrow> vec3 option \<Rightarrow> vec3 \<Rightarrow> component" where
  "walker maxFall lastPos pos =
     \<lparr>this_el = 0, enabled = True, navmesh = ''.floor'', fall = maxFall, height = 1.6,
      exclude = ''.wall'', data_xzOrigin = [], lastPosition = lastPos, excludes = [2, 3],
      objects = [Object3D 1, Object3D 2, Object3D 3], xzOrigin = Some 0, position = pos\<rparr>"

text \<open>
  The same entity configured with a walkable selector that matches nothing in the page,
  and a given exclude selector, before \<^verbatim>\<open>update\<close> has run on that configuration.
\<close>

definition offGrid :: "string \<Rightarrow> component" where
  "offGrid excl = (walker 0.5 None (Vector3 0 1.6 1))\<lparr>navmesh := ''.ground'', exclude := excl\<rparr>"

text \<open>A second entity, element 5, carrying the component, and the world positions of both.\<close>

definition secondEntity :: "component \<Rightarrow> component" where
  "secondEntity c = c\<lparr>this_el := 5, xzOrigin := Some 5\<rparr>"

definition positions :: "vec3 \<Rightarrow> vec3 \<Rightarrow> element \<Rightarrow> vec3" where
  "positions p0 p5 e = (if e = 0 then p0 else p5)"

section \<open>Lemmas on the loop and on \<open>tick\<close>\<close>

lemma anyExcluded_iff:
  "anyExcluded ex results \<longleftrightarrow> (\<exists>r \<in> set results. el (object r) \<in> set ex)"
  by (induction results) auto

lemma loop_reject:
  assumes "rejected c (castRay f c np (s_lastPosition s) angle distance)"
  shows "scanPatternLoop f c origin np ((angle, distance) # rest) s =
         scanPatternLoop f c origin np rest
           (s\<lparr>casts := casts s @ [rayOf c np (s_lastPosition s) (angle, distance)]\<rparr>)"
  using assms by (auto simp: rejected_def rayOf_def Let_def split: list.splits)

lemma loop_accept:
  assumes "castRay f c np (s_lastPosition s) angle distance = nearest # others"
    and "\<not> anyExcluded (excludes c) (nearest # others)"
  shows "scanPatternLoop f c origin np ((angle, distance) # rest) s =
         accept f c origin np (point nearest)
           (s\<lparr>casts := casts s @ [rayOf c np (s_lastPosition s) (angle, distance)]\<rparr>)"
  using assms by (simp add: rayOf_def Let_def)

declare scanPatternLoop.simps(2) [simp del]

lemma loop_rejected_prefix:
  "\<forall>p \<in> set pre. rejected c (castRay f c np (s_lastPosition s) (fst p) (snd p)) \<Longrightarrow>
   scanPatternLoop f c origin np (pre @ rest) s =
   scanPatternLoop f c origin np rest
     (s\<lparr>casts := casts s @ map (rayOf c np (s_lastPosition s)) pre\<rparr>)"
proof (induction pre arbitrary: s)
  case Nil
  then show ?case by simp
next
  case (Cons p pre)
  obtain angle distance where p: "p = (angle, distance)" by (cases p)
  let ?s1 = "s\<lparr>casts := casts s @ [rayOf c np (s_lastPosition s) p]\<rparr>"
  have "scanPatternLoop f c origin np ((p # pre) @ rest) s =
        scanPatternLoop f c origin np (pre @ rest) ?s1"
    using Cons.prems loop_reject [of c f np s angle distance origin "pre @ rest"]
    by (simp add: p)
  also have "\<dots> = scanPatternLoop f c origin np rest
       (?s1\<lparr>casts := casts ?s1 @ map (rayOf c np (s_lastPosition ?s1)) pre\<rparr>)"
    using Cons.prems by (intro Cons.IH) simp
  finally show ?case by simp
qed

lemma loop_first_accepted:
  assumes "\<forall>p \<in> set pre. rejected c (castRay f c np (s_lastPosition s) (fst p) (snd p))"
    and "castRay f c np (s_lastPosition s) angle distance = nearest # others"
    and "\<not> anyExcluded (excludes c) (nearest # others)"
  shows "scanPatternLoop f c origin np (pre @ (angle, distance) # post) s =
         accept f c origin np (point nearest)
           (s\<lparr>casts := casts s @
                map (rayOf c np (s_lastPosition s)) (pre @ [(angle, distance)])\<rparr>)"
proof -
  let ?s1 = "s\<lparr>casts := casts s @ map (rayOf c np (s_lastPosition s)) pre\<rparr>"
  have "scanPatternLoop f c origin np (pre @ (angle, distance) # post) s =
        scanPatternLoop f c origin np ((angle, distance) # post) ?s1"
    using assms(1) by (rule loop_rejected_prefix)
  also have "\<dots> = accept f c origin np (point nearest)
       (?s1\<lparr>casts := casts ?s1 @ [rayOf c np (s_lastPosition ?s1) (angle, distance)]\<rparr>)"
    using assms(2,3) by (intro loop_accept [where others = others]) simp_all
  finally show ?thesis by simp
qed

lemma loop_all_rejected:
  assumes "\<forall>p \<in> set pattern. rejected c (castRay f c np (s_lastPosition s) (fst p) (snd p))"
  shows "scanPatternLoop f c origin np pattern s =
         s\<lparr>casts := casts s @ map (rayOf c np (s_lastPosition s)) pattern\<rparr>"
  using loop_rejected_prefix [OF assms, of origin "[]"] by simp

lemma sqrt_le_iff_sq: "0 \<le> r \<Longrightarrow> sqrt s \<le> r \<longleftrightarrow> s \<le> r\<^sup>2"
  using real_le_lsqrt sqrt_le_D by blast

lemma distanceTo_le:
  "distanceTo a b \<le> 0.01 \<longleftrightarrow>
     (vx a - vx b)\<^sup>2 + (vy a - vy b)\<^sup>2 + (vz a - vz b)\<^sup>2 \<le> 0.0001"
  unfolding distanceTo_def by (subst sqrt_le_iff_sq) (simp_all add: power2_eq_square)

lemma distanceTo_self: "distanceTo a a = 0"
  by (simp add: distanceTo_def)

lemma tick_scan:
  assumes "reachesScan f c origin lastPos"
  shows "tick f k c =
         afterScan f k c
           (scanPatternLoop f c origin (samplePosition f c origin) scanPattern
              (beforeScan k c lastPos))"
proof -
  have same: "c\<lparr>lastPosition := Some lastPos\<rparr> = c"
    using assms by (simp add: reachesScan_def)
  show ?thesis
    using assms by (simp add: reachesScan_def tick_def Let_def same)
qed

lemmas vec_defs =
  subVectors_def addVector_def multiplyScalar_def addY_def setY_def applyAxisAngle_down_def

lemmas scene_defs =
  castRay_def sceneFrame_def walker_def rayStart_def rayFar_def vec_defs maxYVelocity_def
  gravity_def sceneHits_def surfaceHit_def withinFar_def beforeScan_def samplePosition_def

section \<open>Exclusion of obstacles\<close>

text \<open>
  Claim C1.  Whatever the frame and the entry of the pattern: when the nearest result of
  the entry's ray is on an excluded element, the entry is not accepted.  The loop goes on
  with the remaining entries from a state in which the velocity, the entity position,
  the last position and \<^verbatim>\<open>didHit\<close> are as before; only the ray has been recorded.
\<close>

theorem excluded_nearest_hit_rejected:
  assumes "castRay f c nextPosition (s_lastPosition s) angle distance = nearest # others"
    and "el (object nearest) \<in> set (excludes c)"
  shows "scanPatternLoop f c origin nextPosition ((angle, distance) # rest) s =
         scanPatternLoop f c origin nextPosition rest
           (s\<lparr>casts := casts s @ [rayOf c nextPosition (s_lastPosition s) (angle, distance)]\<rparr>)"
  using assms by (intro loop_reject) (simp add: rejected_def)

theorem excluded_nearest_hit_rejected_witness:
  "castRay (sceneFrame 0 16 (\<lambda>e. Vector3 1 1.6 0))
     (walker 0.5 (Some (Vector3 0 1.6 0)) (Vector3 1 1.6 0)) (Vector3 1 1.6 0) (Vector3 0 1.6 0) 0 1
   = [surfaceHit 2 0.3 (Vector3 1 0.5 0), surfaceHit 1 0 (Vector3 1 0.5 0)]
   \<and> el (object (surfaceHit 2 0.3 (Vector3 1 0.5 0)))
       \<in> set (excludes (walker 0.5 (Some (Vector3 0 1.6 0)) (Vector3 1 1.6 0)))
   \<and> scanPatternLoop (sceneFrame 0 16 (\<lambda>e. Vector3 1 1.6 0))
       (walker 0.5 (Some (Vector3 0 1.6 0)) (Vector3 1 1.6 0)) 0 (Vector3 1 1.6 0) [(0, 1)]
       \<lparr>s_yVel = 0, s_position = Vector3 1 1.6 0, s_lastPosition = Vector3 0 1.6 0,
        didHit = False, casts = []\<rparr>
     = \<lparr>s_yVel = 0, s_position = Vector3 1 1.6 0, s_lastPosition = Vector3 0 1.6 0,
        didHit = False, casts = [(Vector3 1 0.5 0, Far 1)]\<rparr>"
proof -
  let ?f = "sceneFrame 0 16 (\<lambda>e. Vector3 1 1.6 0)"
  let ?c = "walker 0.5 (Some (Vector3 0 1.6 0)) (Vector3 1 1.6 0)"
  let ?s = "\<lparr>s_yVel = 0, s_position = Vector3 1 1.6 0, s_lastPosition = Vector3 0 1.6 0,
        didHit = False, casts = []\<rparr>"
  have hits: "castRay ?f ?c (Vector3 1 1.6 0) (s_lastPosition ?s) 0 1
      = surfaceHit 2 0.3 (Vector3 1 0.5 0) # [surfaceHit 1 0 (Vector3 1 0.5 0)]"
    by (simp add: scene_defs)
  have excl: "el (object (surfaceHit 2 0.3 (Vector3 1 0.5 0))) \<in> set (excludes ?c)"
    by (simp add: surfaceHit_def walker_def)
  have ray: "rayOf ?c (Vector3 1 1.6 0) (Vector3 0 1.6 0) (0, 1) = (Vector3 1 0.5 0, Far 1)"
    by (simp add: rayOf_def scene_defs)
  show ?thesis
    using excluded_nearest_hit_rejected [OF hits excl, of 0 "[]"] hits excl ray
    by simp
qed

text \<open>
  Claim C10.  An entry is passed over as soon as any result of its ray, at whatever place
  in the ordered list, is on an excluded element, also when the nearest result is on a
  walkable one: the loop goes on with the remaining entries from an unchanged state, and
  the entry alone never sets \<^verbatim>\<open>didHit\<close>.  So an accepted entry has no excluded element
  in its whole list of results.
\<close>

theorem any_excluded_hit_rejects:
  assumes "hit \<in> set (castRay f c nextPosition (s_lastPosition s) angle distance)"
    and "el (object hit) \<in> set (excludes c)"
  shows "scanPatternLoop f c origin nextPosition ((angle, distance) # rest) s =
         scanPatternLoop f c origin nextPosition rest
           (s\<lparr>casts := casts s @ [rayOf c nextPosition (s_lastPosition s) (angle, distance)]\<rparr>)
       \<and> didHit (scanPatternLoop f c origin nextPosition [(angle, distance)] s) = didHit s"
proof -
  have rej: "rejected c (castRay f c nextPosition (s_lastPosition s) angle distance)"
    using assms unfolding rejected_def anyExcluded_iff by blast
  show ?thesis
    by (simp add: loop_reject [OF rej])
qed

theorem any_excluded_hit_rejects_witness:
  "castRay (sceneFrame 0 16 (\<lambda>e. Vector3 1 1.6 (-1)))
     (walker 0.5 (Some (Vector3 0 1.6 (-1))) (Vector3 1 1.6 (-1))) (Vector3 1 1.6 (-1)) (Vector3 0 1.6 (-1)) 0 1
   = [surfaceHit 1 0 (Vector3 1 0.5 (-1)), surfaceHit 3 (-0.3) (Vector3 1 0.5 (-1))]
   \<and> el (object (surfaceHit 1 0 (Vector3 1 0.5 (-1))))
       \<notin> set (excludes (walker 0.5 (Some (Vector3 0 1.6 (-1))) (Vector3 1 1.6 (-1))))
   \<and> el (object (surfaceHit 3 (-0.3) (Vector3 1 0.5 (-1))))
       \<in> set (excludes (walker 0.5 (Some (Vector3 0 1.6 (-1))) (Vector3 1 1.6 (-1))))
   \<and> scanPatternLoop (sceneFrame 0 16 (\<lambda>e. Vector3 1 1.6 (-1)))
       (walker 0.5 (Some (Vector3 0 1.6 (-1))) (Vector3 1 1.6 (-1))) 0 (Vector3 1 1.6 (-1)) [(0, 1)]
       \<lparr>s_yVel = 0, s_position = Vector3 1 1.6 (-1), s_lastPosition = Vector3 0 1.6 (-1),
        didHit = False, casts = []\<rparr>
     = \<lparr>s_yVel = 0, s_position = Vector3 1 1.6 (-1), s_lastPosition = Vector3 0 1.6 (-1),
        didHit = False, casts = [(Vector3 1 0.5 (-1), Far 1)]\<rparr>"
proof -
  let ?f = "sceneFrame 0 16 (\<lambda>e. Vector3 1 1.6 (-1))"
  let ?c = "walker 0.5 (Some (Vector3 0 1.6 (-1))) (Vector3 1 1.6 (-1))"
  let ?s = "\<lparr>s_yVel = 0, s_position = Vector3 1 1.6 (-1), s_lastPosition = Vector3 0 1.6 (-1),
        didHit = False, casts = []\<rparr>"
  have hits: "castRay ?f ?c (Vector3 1 1.6 (-1)) (s_lastPosition ?s) 0 1
      = [surfaceHit 1 0 (Vector3 1 0.5 (-1)), surfaceHit 3 (-0.3) (Vector3 1 0.5 (-1))]"
    by (simp add: scene_defs)
  have mem: "surfaceHit 3 (-0.3) (Vector3 1 0.5 (-1))
       \<in> set (castRay ?f ?c (Vector3 1 1.6 (-1)) (s_lastPosition ?s) 0 1)"
    unfolding hits by simp
  have excl: "el (object (surfaceHit 3 (-0.3) (Vector3 1 0.5 (-1)))) \<in> set (excludes ?c)"
    by (simp add: surfaceHit_def walker_def)
  have walk: "el (object (surfaceHit 1 0 (Vector3 1 0.5 (-1)))) \<notin> set (excludes ?c)"
    by (simp add: surfaceHit_def walker_def)
  have ray: "rayOf ?c (Vector3 1 1.6 (-1)) (Vector3 0 1.6 (-1)) (0, 1) = (Vector3 1 0.5 (-1), Far 1)"
    by (simp add: rayOf_def scene_defs)
  show ?thesis
    using any_excluded_hit_rejects [OF mem excl, of 0 "[]"] hits excl walk ray
    by simp
qed

section \<open>Order of the scan\<close>

lemma tick_first_accepted:
  assumes "reachesScan f c origin lastPos"
    and "scanPattern = pre @ (angle, distance) # post"
    and "\<forall>p \<in> set pre. rejected c (castRay f c (samplePosition f c origin) lastPos (fst p) (snd p))"
    and "castRay f c (samplePosition f c origin) lastPos angle distance = nearest # others"
    and "\<not> anyExcluded (excludes c) (nearest # others)"
  shows "tick f k c =
         afterScan f k c
           (accept f c origin (samplePosition f c origin) (point nearest)
              ((beforeScan k c lastPos)
                 \<lparr>casts := map (rayOf c (samplePosition f c origin) lastPos) (pre @ [(angle, distance)])\<rparr>))"
proof -
  let ?s = "beforeScan k c lastPos"
  have lp: "s_lastPosition ?s = lastPos" and cs: "casts ?s = []"
    by (simp_all add: beforeScan_def)
  have "scanPatternLoop f c origin (samplePosition f c origin) (pre @ (angle, distance) # post) ?s =
        accept f c origin (samplePosition f c origin) (point nearest)
          (?s\<lparr>casts := casts ?s @ map (rayOf c (samplePosition f c origin) (s_lastPosition ?s)) (pre @ [(angle, distance)])\<rparr>)"
    using assms(3-5) by (intro loop_first_accepted [where others = others]) (simp_all add: lp)
  then show ?thesis
    using assms(2) by (simp add: tick_scan [OF assms(1)] lp cs)
qed

text \<open>
  Claim C6.  The pattern is the fixed table of eight entries, and \<^verbatim>\<open>tick\<close> tries them
  in that order: when the entries before one entry are all passed over and that entry's
  ray gives results without excluded element, the tick commits the nearest result of that
  entry and casts no further ray.  With the two entries of angle 0 passed over and a valid
  hit for the entry of angle 30, the tick commits the hit of the entry of angle 30 and
  never tries the entries of angles 60 and 80.
\<close>

theorem first_valid_entry_wins:
  assumes "reachesScan f c origin lastPos"
    and "nextPosition = samplePosition f c origin"
    and "scanPattern = pre @ (angle, distance) # post"
    and "\<forall>p \<in> set pre. rejected c (castRay f c nextPosition lastPos (fst p) (snd p))"
    and "castRay f c nextPosition lastPos angle distance = nearest # others"
    and "\<forall>r \<in> set (nearest # others). el (object r) \<notin> set (excludes c)"
  shows "scanPattern =
           [(0, 1), (0, 0.5), (30, 0.4), (-30, 0.4), (60, 0.2), (-60, 0.2), (80, 0.06), (-80, 0.06)]
       \<and> tick f k c =
           afterScan f k c
             (accept f c origin nextPosition (point nearest)
                ((beforeScan k c lastPos)
                   \<lparr>casts := map (rayOf c nextPosition lastPos) (pre @ [(angle, distance)])\<rparr>))"
proof -
  have "\<not> anyExcluded (excludes c) (nearest # others)"
    using assms(6) unfolding anyExcluded_iff by blast
  then have "tick f k c =
           afterScan f k c
             (accept f c origin nextPosition (point nearest)
                ((beforeScan k c lastPos)
                   \<lparr>casts := map (rayOf c nextPosition lastPos) (pre @ [(angle, distance)])\<rparr>))"
    using assms(1-5) tick_first_accepted [of f c origin lastPos pre angle distance post nearest others k]
    by simp
  then show ?thesis
    by (simp add: scanPattern_def)
qed

theorem first_valid_entry_wins_witness:
  "reachesScan (sceneFrame 0 16 (\<lambda>e. Vector3 1 1.6 0))
      (walker 0.5 (Some (Vector3 0 1.6 0)) (Vector3 1 1.6 0)) 0 (Vector3 0 1.6 0)
   \<and> scanPattern = [(0, 1), (0, 0.5)] @ (30, 0.4) # [(-30, 0.4), (60, 0.2), (-60, 0.2), (80, 0.06), (-80, 0.06)]
   \<and> rejected (walker 0.5 (Some (Vector3 0 1.6 0)) (Vector3 1 1.6 0))
        (castRay (sceneFrame 0 16 (\<lambda>e. Vector3 1 1.6 0))
           (walker 0.5 (Some (Vector3 0 1.6 0)) (Vector3 1 1.6 0)) (Vector3 1 1.6 0) (Vector3 0 1.6 0) 0 1)
   \<and> rejected (walker 0.5 (Some (Vector3 0 1.6 0)) (Vector3 1 1.6 0))
        (castRay (sceneFrame 0 16 (\<lambda>e. Vector3 1 1.6 0))
           (walker 0.5 (Some (Vector3 0 1.6 0)) (Vector3 1 1.6 0)) (Vector3 1 1.6 0) (Vector3 0 1.6 0) 0 0.5)
   \<and> castRay (sceneFrame 0 16 (\<lambda>e. Vector3 1 1.6 0))
        (walker 0.5 (Some (Vector3 0 1.6 0)) (Vector3 1 1.6 0)) (Vector3 1 1.6 0) (Vector3 0 1.6 0) 30 0.4
      = [surfaceHit 1 0 (Vector3 (sqrt 3 / 5) 0.5 0.2)]
   \<and> lastPosition (t_component (tick (sceneFrame 0 16 (\<lambda>e. Vector3 1 1.6 0))
         \<lparr>yVel = 0, firstTry = False\<rparr> (walker 0.5 (Some (Vector3 0 1.6 0)) (Vector3 1 1.6 0))))
      = Some (Vector3 (sqrt 3 / 5) 1.6 0.2)
   \<and> position (t_component (tick (sceneFrame 0 16 (\<lambda>e. Vector3 1 1.6 0))
         \<lparr>yVel = 0, firstTry = False\<rparr> (walker 0.5 (Some (Vector3 0 1.6 0)) (Vector3 1 1.6 0))))
      = Vector3 (sqrt 3 / 5) 1.6 0.2
   \<and> length (t_rays (tick (sceneFrame 0 16 (\<lambda>e. Vector3 1 1.6 0))
         \<lparr>yVel = 0, firstTry = False\<rparr> (walker 0.5 (Some (Vector3 0 1.6 0)) (Vector3 1 1.6 0)))) = 3"
proof -
  let ?f = "sceneFrame 0 16 (\<lambda>e. Vector3 1 1.6 0)"
  let ?c = "walker 0.5 (Some (Vector3 0 1.6 0)) (Vector3 1 1.6 0)"
  let ?np = "Vector3 1 1.6 0"
  let ?lp = "Vector3 0 1.6 0"
  let ?hit = "surfaceHit 1 0 (Vector3 (sqrt 3 / 5) 0.5 0.2)"
  have far: "\<not> distanceTo ?np ?lp \<le> 0.01"
    unfolding distanceTo_le by simp
  have np: "?np = samplePosition ?f ?c 0"
    by (simp add: scene_defs)
  have reach: "reachesScan ?f ?c 0 ?lp"
    using far by (simp add: reachesScan_def scene_defs)
  have split: "scanPattern = [(0, 1), (0, 0.5)] @ (30, 0.4) # [(-30, 0.4), (60, 0.2), (-60, 0.2), (80, 0.06), (-80, 0.06)]"
    by (simp add: scanPattern_def)
  have r0: "rejected ?c (castRay ?f ?c ?np ?lp 0 1)"
    by (simp add: rejected_def scene_defs)
  have r1: "rejected ?c (castRay ?f ?c ?np ?lp 0 0.5)"
    by (simp add: rejected_def scene_defs)
  have blocked: "\<forall>p \<in> set [(0, 1), (0, 0.5)]. rejected ?c (castRay ?f ?c ?np ?lp (fst p) (snd p))"
    using r0 r1 by simp
  have open30: "castRay ?f ?c ?np ?lp 30 0.4 = ?hit # []"
    by (simp add: scene_defs sin_30 cos_30)
  have walkable: "\<forall>r \<in> set (?hit # []). el (object r) \<notin> set (excludes ?c)"
    by (simp add: surfaceHit_def walker_def)
  have t: "tick ?f \<lparr>yVel = 0, firstTry = False\<rparr> ?c =
           afterScan ?f \<lparr>yVel = 0, firstTry = False\<rparr> ?c
             (accept ?f ?c 0 ?np (point ?hit)
                ((beforeScan \<lparr>yVel = 0, firstTry = False\<rparr> ?c ?lp)
                   \<lparr>casts := map (rayOf ?c ?np ?lp) ([(0, 1), (0, 0.5)] @ [(30, 0.4)])\<rparr>))"
    using first_valid_entry_wins [OF reach np split blocked open30 walkable] by blast
  have res: "lastPosition (t_component (tick ?f \<lparr>yVel = 0, firstTry = False\<rparr> ?c)) = Some (Vector3 (sqrt 3 / 5) 1.6 0.2)
     \<and> position (t_component (tick ?f \<lparr>yVel = 0, firstTry = False\<rparr> ?c)) = Vector3 (sqrt 3 / 5) 1.6 0.2
     \<and> length (t_rays (tick ?f \<lparr>yVel = 0, firstTry = False\<rparr> ?c)) = 3"
    unfolding t
    by (simp add: afterScan_def accept_def originPosition_def surfaceHit_def Let_def vec_defs beforeScan_def)
       (simp add: walker_def sceneFrame_def)
  show ?thesis
    using reach split r0 r1 open30 res by blast
qed

section \<open>A tick without accepted entry\<close>

lemma tick_all_rejected:
  assumes "reachesScan f c origin lastPos"
    and "\<forall>p \<in> set scanPattern. rejected c (castRay f c (samplePosition f c origin) lastPos (fst p) (snd p))"
  shows "tick f k c =
         afterScan f k c
           ((beforeScan k c lastPos)
              \<lparr>casts := map (rayOf c (samplePosition f c origin) lastPos) scanPattern\<rparr>)"
proof -
  let ?s = "beforeScan k c lastPos"
  have lp: "s_lastPosition ?s = lastPos" and cs: "casts ?s = []"
    by (simp_all add: beforeScan_def)
  have "scanPatternLoop f c origin (samplePosition f c origin) scanPattern ?s =
        ?s\<lparr>casts := casts ?s @ map (rayOf c (samplePosition f c origin) (s_lastPosition ?s)) scanPattern\<rparr>"
    using assms(2) by (intro loop_all_rejected) (simp add: lp)
  then show ?thesis
    by (simp add: tick_scan [OF assms(1)] lp cs)
qed



section \<open>Gravity\<close>



section \<open>A tick without movement\<close>

text \<open>
  Claim C9.  On a tick where the sampled position is within 0.01 of the stored last
  position, \<^verbatim>\<open>tick\<close> returns without casting a ray, and the velocity, \<^verbatim>\<open>firstTry\<close>, the
  last position and the entity position are what they were.
\<close>

theorem still_tick_changes_nothing:
  assumes "xzOrigin c = Some origin"
    and "lastPosition c = Some lastPos"
    and "distanceTo (samplePosition f c origin) lastPos \<le> 0.01"
  shows "tick f k c = \<lparr>t_closure = k, t_component = c, t_rays = [], t_thrown = None\<rparr>"
proof -
  have same: "c\<lparr>lastPosition := Some lastPos\<rparr> = c"
    using assms(2) by simp
  show ?thesis
    using assms by (simp add: tick_def returned_def Let_def same)
qed

theorem still_tick_changes_nothing_witness:
  "xzOrigin (walker 0.5 (Some (Vector3 0 1.6 1)) (Vector3 0.005 1.6 1.005)) = Some 0
   \<and> lastPosition (walker 0.5 (Some (Vector3 0 1.6 1)) (Vector3 0.005 1.6 1.005)) = Some (Vector3 0 1.6 1)
   \<and> distanceTo (samplePosition (sceneFrame 0 16 (\<lambda>e. Vector3 0.005 1.6 1.005))
        (walker 0.5 (Some (Vector3 0 1.6 1)) (Vector3 0.005 1.6 1.005)) 0) (Vector3 0 1.6 1) \<le> 0.01
   \<and> tick (sceneFrame 0 16 (\<lambda>e. Vector3 0.005 1.6 1.005)) \<lparr>yVel = - 0.2, firstTry = False\<rparr>
        (walker 0.5 (Some (Vector3 0 1.6 1)) (Vector3 0.005 1.6 1.005))
      = \<lparr>t_closure = \<lparr>yVel = - 0.2, firstTry = False\<rparr>,
         t_component = walker 0.5 (Some (Vector3 0 1.6 1)) (Vector3 0.005 1.6 1.005),
         t_rays = [], t_thrown = None\<rparr>"
proof -
  let ?f = "sceneFrame 0 16 (\<lambda>e. Vector3 0.005 1.6 1.005)"
  let ?c = "walker 0.5 (Some (Vector3 0 1.6 1)) (Vector3 0.005 1.6 1.005)"
  have origin: "xzOrigin ?c = Some 0" and last: "lastPosition ?c = Some (Vector3 0 1.6 1)"
    by (simp_all add: walker_def)
  have np: "samplePosition ?f ?c 0 = Vector3 0.005 1.6 1.005"
    by (simp add: scene_defs)
  have near: "distanceTo (samplePosition ?f ?c 0) (Vector3 0 1.6 1) \<le> 0.01"
    unfolding np distanceTo_le by (simp add: power2_eq_square)
  show ?thesis
    using still_tick_changes_nothing [OF origin last near] origin last near by blast
qed

section \<open>Two special ticks\<close>

text \<open>
  The tick that accepts the first entry of the pattern, and the first tick after
  \<^verbatim>\<open>update\<close>, which only stores the sampled position and sets \<^verbatim>\<open>firstTry\<close>.
\<close>

lemma tick_primary_accepted:
  assumes "reachesScan f c origin lastPos"
    and "castRay f c (samplePosition f c origin) lastPos 0 1 = nearest # others"
    and "\<not> anyExcluded (excludes c) (nearest # others)"
  shows "tick f k c =
         afterScan f k c
           (accept f c origin (samplePosition f c origin) (point nearest)
              ((beforeScan k c lastPos)
                 \<lparr>casts := [rayOf c (samplePosition f c origin) lastPos (0, 1)]\<rparr>))"
proof -
  have split: "scanPattern = [] @ (0, 1) # tl scanPattern"
    by (simp add: scanPattern_def)
  show ?thesis
    using tick_first_accepted [OF assms(1) split _ assms(2,3), of k] by simp
qed

lemma samplePosition_lastPosition:
  "samplePosition f (c\<lparr>lastPosition := p\<rparr>) origin = samplePosition f c origin"
  by (simp add: samplePosition_def originPosition_def Let_def)

lemma tick_uninitialised:
  assumes "enabled c" "xzOrigin c = Some origin" "lastPosition c = None"
  shows "tick f k c =
         returned (k\<lparr>firstTry := True\<rparr>) (c\<lparr>lastPosition := Some (samplePosition f c origin)\<rparr>)"
  using assms
  by (simp add: tick_def Let_def samplePosition_lastPosition distanceTo_self)

lemmas tick_defs = afterScan_def accept_def originPosition_def Let_def

section \<open>The bound on the velocity\<close>

text \<open>
  Claim C3.  The claim bounds the velocity by the terminal velocity: it stays in
  \<open>[-0.5, 0]\<close>.  The source bounds the amount added on one tick, not the sum.  An entity
  8.4 above its resting height, with an unbounded \<^verbatim>\<open>fall\<close>, moved sideways by its
  controls between two frames of 300 ms each: after the first tick the velocity is \<open>-0.3\<close> and the entity
  is at height \<open>-0.3\<close>; after the second the velocity is \<open>-0.6\<close>, below \<open>-0.5\<close>.
\<close>

theorem velocity_exceeds_terminal:
  "yVel (t_closure (tick (sceneFrame (-10) 300 (\<lambda>e. Vector3 0.1 0 1)) \<lparr>yVel = 0, firstTry = False\<rparr>
            (walker 0 (Some (Vector3 0 0 1)) (Vector3 0.1 0 1)))) = - 0.3
   \<and> t_component (tick (sceneFrame (-10) 300 (\<lambda>e. Vector3 0.1 0 1)) \<lparr>yVel = 0, firstTry = False\<rparr>
            (walker 0 (Some (Vector3 0 0 1)) (Vector3 0.1 0 1)))
       = walker 0 (Some (Vector3 0.1 (- 0.3) 1)) (Vector3 0.1 (- 0.3) 1)
   \<and> yVel (t_closure (tick (sceneFrame (-10) 300 (\<lambda>e. Vector3 0.2 (- 0.3) 1)) \<lparr>yVel = - 0.3, firstTry = False\<rparr>
            (walker 0 (Some (Vector3 0.1 (- 0.3) 1)) (Vector3 0.2 (- 0.3) 1)))) = - 0.6
   \<and> - 0.6 < - maxYVelocity"
proof -
  let ?f1 = "sceneFrame (-10) 300 (\<lambda>e. Vector3 0.1 0 1)"
  let ?c1 = "walker 0 (Some (Vector3 0 0 1)) (Vector3 0.1 0 1)"
  let ?k1 = "\<lparr>yVel = 0, firstTry = False\<rparr>"
  let ?f2 = "sceneFrame (-10) 300 (\<lambda>e. Vector3 0.2 (- 0.3) 1)"
  let ?c2 = "walker 0 (Some (Vector3 0.1 (- 0.3) 1)) (Vector3 0.2 (- 0.3) 1)"
  let ?k2 = "\<lparr>yVel = - 0.3, firstTry = False\<rparr>"
  have far1: "\<not> distanceTo (Vector3 0.1 0 1) (Vector3 0 0 1) \<le> 0.01"
    unfolding distanceTo_le by (simp add: power2_eq_square)
  have reach1: "reachesScan ?f1 ?c1 0 (Vector3 0 0 1)"
    using far1 by (simp add: reachesScan_def scene_defs)
  have hits1: "castRay ?f1 ?c1 (samplePosition ?f1 ?c1 0) (Vector3 0 0 1) 0 1
       = surfaceHit 1 (-10) (Vector3 0.1 (-1.1) 1) # []"
    by (simp add: scene_defs)
  have ok1: "\<not> anyExcluded (excludes ?c1) (surfaceHit 1 (-10) (Vector3 0.1 (-1.1) 1) # [])"
    by (simp add: surfaceHit_def walker_def)
  have t1: "yVel (t_closure (tick ?f1 ?k1 ?c1)) = - 0.3"
    and c1: "t_component (tick ?f1 ?k1 ?c1) = walker 0 (Some (Vector3 0.1 (- 0.3) 1)) (Vector3 0.1 (- 0.3) 1)"
    unfolding tick_primary_accepted [OF reach1 hits1 ok1]
    by (simp_all add: tick_defs scene_defs)
  have far2: "\<not> distanceTo (Vector3 0.2 (- 0.3) 1) (Vector3 0.1 (- 0.3) 1) \<le> 0.01"
    unfolding distanceTo_le by (simp add: power2_eq_square)
  have reach2: "reachesScan ?f2 ?c2 0 (Vector3 0.1 (- 0.3) 1)"
    using far2 by (simp add: reachesScan_def scene_defs)
  have hits2: "castRay ?f2 ?c2 (samplePosition ?f2 ?c2 0) (Vector3 0.1 (- 0.3) 1) 0 1
       = surfaceHit 1 (-10) (Vector3 0.2 (-1.4) 1) # []"
    by (simp add: scene_defs)
  have ok2: "\<not> anyExcluded (excludes ?c2) (surfaceHit 1 (-10) (Vector3 0.2 (-1.4) 1) # [])"
    by (simp add: surfaceHit_def walker_def)
  have t2: "yVel (t_closure (tick ?f2 ?k2 ?c2)) = - 0.6"
    unfolding tick_primary_accepted [OF reach2 hits2 ok2]
    by (simp add: tick_defs scene_defs)
  have "- 0.6 < - maxYVelocity"
    by (simp add: maxYVelocity_def)
  then show ?thesis
    using t1 c1 t2 by blast
qed

section \<open>Two instances of the component\<close>

text \<open>
  Claim C7.  The claim makes the velocity and \<^verbatim>\<open>firstTry\<close> private to an instance.  In
  the source they are variables of the one closure of \<^verbatim>\<open>tick\<close>.  Two entities on frames
  of 100 ms: entity 0 high above the floor, entity 5 at 0.3 above its resting height.
  Ticking entity 0 takes the one velocity from 0 to \<open>-0.1\<close>.  Entity 5 ticked alone
  comes down to height \<open>-8.2\<close>; ticked after entity 0 it comes down to \<open>-8.3\<close>.  And
  the first tick of a newly configured entity 0 sets the one flag \<^verbatim>\<open>firstTry\<close>, which
  was clear because entity 5 had landed.
\<close>

theorem velocity_shared_between_instances:
  "yVel (shared (tickInstance (sceneFrame (-10) 100 (positions (Vector3 0.1 0 1) (Vector3 5.1 (- 8.1) 1))) 0
      \<lparr>shared = \<lparr>yVel = 0, firstTry = False\<rparr>,
       instances = [walker 0 (Some (Vector3 0 0 1)) (Vector3 0.1 0 1),
                    secondEntity (walker 0.5 (Some (Vector3 5 (- 8.1) 1)) (Vector3 5.1 (- 8.1) 1))]\<rparr>))
     = - 0.1
   \<and> lastPosition (instances (tickInstance (sceneFrame (-10) 100 (positions (Vector3 0.1 0 1) (Vector3 5.1 (- 8.1) 1))) 1
      \<lparr>shared = \<lparr>yVel = 0, firstTry = False\<rparr>,
       instances = [walker 0 (Some (Vector3 0 0 1)) (Vector3 0.1 0 1),
                    secondEntity (walker 0.5 (Some (Vector3 5 (- 8.1) 1)) (Vector3 5.1 (- 8.1) 1))]\<rparr>) ! 1)
     = Some (Vector3 5.1 (- 8.2) 1)
   \<and> lastPosition (instances (tickInstance (sceneFrame (-10) 100 (positions (Vector3 0.1 0 1) (Vector3 5.1 (- 8.1) 1))) 1
      (tickInstance (sceneFrame (-10) 100 (positions (Vector3 0.1 0 1) (Vector3 5.1 (- 8.1) 1))) 0
      \<lparr>shared = \<lparr>yVel = 0, firstTry = False\<rparr>,
       instances = [walker 0 (Some (Vector3 0 0 1)) (Vector3 0.1 0 1),
                    secondEntity (walker 0.5 (Some (Vector3 5 (- 8.1) 1)) (Vector3 5.1 (- 8.1) 1))]\<rparr>)) ! 1)
     = Some (Vector3 5.1 (- 8.3) 1)
   \<and> firstTry (shared (tickInstance (sceneFrame (-10) 100 (positions (Vector3 0.1 0 1) (Vector3 5.1 (- 8.1) 1))) 0
      \<lparr>shared = \<lparr>yVel = 0, firstTry = False\<rparr>,
       instances = [walker 0 None (Vector3 0.1 0 1),
                    secondEntity (walker 0.5 (Some (Vector3 5 (- 8.1) 1)) (Vector3 5.1 (- 8.1) 1))]\<rparr>))"
proof -
  let ?f = "sceneFrame (-10) 100 (positions (Vector3 0.1 0 1) (Vector3 5.1 (- 8.1) 1))"
  let ?a = "walker 0 (Some (Vector3 0 0 1)) (Vector3 0.1 0 1)"
  let ?b = "secondEntity (walker 0.5 (Some (Vector3 5 (- 8.1) 1)) (Vector3 5.1 (- 8.1) 1))"
  let ?k = "\<lparr>yVel = 0, firstTry = False\<rparr>"
  let ?k' = "\<lparr>yVel = - 0.1, firstTry = False\<rparr>"
  have npa: "samplePosition ?f ?a 0 = Vector3 0.1 0 1"
    and npb: "samplePosition ?f ?b 5 = Vector3 5.1 (- 8.1) 1"
    by (simp_all add: scene_defs positions_def secondEntity_def)
  have fara: "\<not> distanceTo (Vector3 0.1 0 1) (Vector3 0 0 1) \<le> 0.01"
    and farb: "\<not> distanceTo (Vector3 5.1 (- 8.1) 1) (Vector3 5 (- 8.1) 1) \<le> 0.01"
    unfolding distanceTo_le by (simp_all add: power2_eq_square)
  have reacha: "reachesScan ?f ?a 0 (Vector3 0 0 1)"
    using fara unfolding reachesScan_def npa by (simp add: walker_def)
  have reachb: "reachesScan ?f ?b 5 (Vector3 5 (- 8.1) 1)"
    using farb unfolding reachesScan_def npb by (simp add: walker_def secondEntity_def)
  have hitsa: "castRay ?f ?a (samplePosition ?f ?a 0) (Vector3 0 0 1) 0 1
       = surfaceHit 1 (-10) (Vector3 0.1 (-1.1) 1) # []"
    unfolding npa by (simp add: scene_defs)
  have hitsb: "castRay ?f ?b (samplePosition ?f ?b 5) (Vector3 5 (- 8.1) 1) 0 1
       = surfaceHit 1 (-10) (Vector3 5.1 (- 9.2) 1) # []"
    unfolding npb by (simp add: scene_defs secondEntity_def)
  have oka: "\<not> anyExcluded (excludes ?a) (surfaceHit 1 (-10) (Vector3 0.1 (-1.1) 1) # [])"
    by (simp add: surfaceHit_def walker_def)
  have okb: "\<not> anyExcluded (excludes ?b) (surfaceHit 1 (-10) (Vector3 5.1 (- 9.2) 1) # [])"
    by (simp add: surfaceHit_def walker_def secondEntity_def)
  have ta: "t_closure (tick ?f ?k ?a) = ?k'"
    unfolding tick_primary_accepted [OF reacha hitsa oka] npa
    by (simp add: tick_defs scene_defs)
  have tb: "lastPosition (t_component (tick ?f ?k ?b)) = Some (Vector3 5.1 (- 8.2) 1)"
    unfolding tick_primary_accepted [OF reachb hitsb okb] npb
    by (simp add: tick_defs scene_defs secondEntity_def)
  have tb': "lastPosition (t_component (tick ?f ?k' ?b)) = Some (Vector3 5.1 (- 8.3) 1)"
    unfolding tick_primary_accepted [OF reachb hitsb okb] npb
    by (simp add: tick_defs scene_defs secondEntity_def)
  have fresh: "firstTry (t_closure (tick ?f ?k (walker 0 None (Vector3 0.1 0 1))))"
    by (subst tick_uninitialised [where origin = 0]) (simp_all add: walker_def returned_def)
  show ?thesis
    using ta tb tb' fresh by (simp add: tickInstance_def Let_def)
qed

section \<open>A walkable selector that matches nothing\<close>

lemma update_never_warns: "u_warnings (update doc c) = []"
  by (simp add: update_def Let_def Array_from_def split: sum.splits)

lemma update_page_offGrid:
  "update page (offGrid ''.wall'') =
     \<lparr>u_component = (offGrid ''.wall'')\<lparr>excludes := [2, 3], objects := [Object3D 2, Object3D 3]\<rparr>,
      u_warnings = [], u_thrown = None\<rparr>"
  by (simp add: update_def offGrid_def walker_def page_def Array_from_def Let_def)

text \<open>
  Claim C5.  The claim: when the walkable selector matches no surface, a warning is
  logged and no tick casts a ray, whatever the exclude selector matches.  \<^verbatim>\<open>update\<close> has
  a branch that does so (it warns and empties the list of objects), taken when
  \<^verbatim>\<open>els === null\<close>; but \<^verbatim>\<open>els\<close> comes from \<^verbatim>\<open>Array.from\<close> and is never \<^verbatim>\<open>null\<close>, so the
  branch is never taken.  In the page, the walkable selector \<^verbatim>\<open>.ground\<close> matches no
  element and the exclude selector \<^verbatim>\<open>.wall\<close> matches two: \<^verbatim>\<open>update\<close> logs no warning and
  the list of objects holds the two excluded objects.  The first tick stores a last
  position; once the entity has moved, the next tick casts its eight rays against them.
\<close>

theorem unmatched_walkable_selector_still_scans:
  "querySelectorAll page (navmesh (offGrid ''.wall'')) = Inr []
   \<and> u_warnings (update page (offGrid ''.wall'')) = []
   \<and> lastPosition (u_component (update page (offGrid ''.wall''))) = None
   \<and> tick (sceneFrame 0 16 (\<lambda>e. Vector3 0 1.6 1)) \<lparr>yVel = 0, firstTry = False\<rparr>
        (u_component (update page (offGrid ''.wall'')))
      = \<lparr>t_closure = \<lparr>yVel = 0, firstTry = True\<rparr>,
         t_component = (u_component (update page (offGrid ''.wall'')))
                         \<lparr>lastPosition := Some (Vector3 0 1.6 1)\<rparr>,
         t_rays = [], t_thrown = None\<rparr>
   \<and> length (t_rays (tick (sceneFrame 0 16 (\<lambda>e. Vector3 1 1.6 1)) \<lparr>yVel = 0, firstTry = True\<rparr>
        ((u_component (update page (offGrid ''.wall'')))
           \<lparr>lastPosition := Some (Vector3 0 1.6 1), position := Vector3 1 1.6 1\<rparr>))) = 8"
proof -
  let ?c = "(offGrid ''.wall'')\<lparr>excludes := [2, 3], objects := [Object3D 2, Object3D 3]\<rparr>"
  let ?c' = "?c\<lparr>lastPosition := Some (Vector3 0 1.6 1), position := Vector3 1 1.6 1\<rparr>"
  let ?f = "sceneFrame 0 16 (\<lambda>e. Vector3 0 1.6 1)"
  let ?f' = "sceneFrame 0 16 (\<lambda>e. Vector3 1 1.6 1)"
  have u: "u_component (update page (offGrid ''.wall'')) = ?c"
    and w: "u_warnings (update page (offGrid ''.wall'')) = []"
    by (simp_all add: update_page_offGrid)
  have sel: "querySelectorAll page (navmesh (offGrid ''.wall'')) = Inr []"
    by (simp add: offGrid_def page_def)
  have unset: "lastPosition ?c = None"
    by (simp add: offGrid_def walker_def)
  have first: "tick ?f \<lparr>yVel = 0, firstTry = False\<rparr> ?c =
        \<lparr>t_closure = \<lparr>yVel = 0, firstTry = True\<rparr>,
         t_component = ?c\<lparr>lastPosition := Some (Vector3 0 1.6 1)\<rparr>,
         t_rays = [], t_thrown = None\<rparr>"
    by (subst tick_uninitialised [where origin = 0])
       (simp_all add: offGrid_def walker_def returned_def samplePosition_def sceneFrame_def)
  have np: "samplePosition ?f' ?c' 0 = Vector3 1 1.6 1"
    by (simp add: samplePosition_def sceneFrame_def offGrid_def walker_def)
  have far: "\<not> distanceTo (Vector3 1 1.6 1) (Vector3 0 1.6 1) \<le> 0.01"
    unfolding distanceTo_le by simp
  have reach: "reachesScan ?f' ?c' 0 (Vector3 0 1.6 1)"
    using far unfolding reachesScan_def np by (simp add: offGrid_def walker_def)
  have none: "rejected ?c' (castRay ?f' ?c' (Vector3 1 1.6 1) (Vector3 0 1.6 1) angle distance)"
    for angle distance
    by (simp add: rejected_def scene_defs offGrid_def)
  have rej: "\<forall>p \<in> set scanPattern. rejected ?c' (castRay ?f' ?c' (samplePosition ?f' ?c' 0) (Vector3 0 1.6 1) (fst p) (snd p))"
    unfolding np using none by blast
  have rays: "length (t_rays (tick ?f' \<lparr>yVel = 0, firstTry = True\<rparr> ?c')) = 8"
    unfolding tick_all_rejected [OF reach rej]
    by (simp add: afterScan_def Let_def scanPattern_def)
  show ?thesis
    unfolding u using sel w [unfolded u] unset first rays by simp
qed

text \<open>
  What the guard on the list of objects does when the list is empty, as it is when both
  selectors match nothing: a tick then casts no ray, leaves the entity position and the
  velocity as they are, and throws only when the origin is not resolved; when a last
  position is stored the tick changes nothing at all.
\<close>

lemma update_objects_empty:
  assumes "querySelectorAll doc (navmesh cfg) = Inr []"
    and "exclude cfg = [] \<or> querySelectorAll doc (exclude cfg) = Inr []"
  shows "objects (u_component (update doc cfg)) = []"
  using assms by (auto simp: update_def Let_def Array_from_def split: sum.splits)

lemma empty_object_list_no_scan:
  assumes "objects c = []"
  shows "t_rays (tick f k c) = []
       \<and> position (t_component (tick f k c)) = position c
       \<and> yVel (t_closure (tick f k c)) = yVel k
       \<and> objects (t_component (tick f k c)) = []
       \<and> (t_thrown (tick f k c) = None \<longleftrightarrow>
            \<not> (enabled c \<and> xzOrigin c = None \<and> lastPosition c = None))
       \<and> (lastPosition c \<noteq> None \<longrightarrow>
            tick f k c = \<lparr>t_closure = k, t_component = c, t_rays = [], t_thrown = None\<rparr>)"
proof -
  have same: "c\<lparr>lastPosition := Some p\<rparr> = c" if "lastPosition c = Some p" for p
    using that by simp
  show ?thesis
    using assms
    by (auto simp: tick_def returned_def threw_def Let_def same split: option.splits)
qed

section \<open>Disabling and enabling\<close>




section \<open>What holds of the velocity\<close>

text \<open>
  With a delta that is not negative, the velocity never becomes positive, and one tick
  either resets it to 0 or lowers it by at most 0.5.
\<close>

lemma accept_yVel:
  assumes "0 \<le> delta f" "s_yVel s \<le> 0"
  shows "s_yVel (accept f c origin np h s) \<le> 0
       \<and> (s_yVel (accept f c origin np h s) = 0 \<or> s_yVel s - 0.5 \<le> s_yVel (accept f c origin np h s))"
  using assms
  by (auto simp: accept_def Let_def gravity_def maxYVelocity_def max_def split: prod.splits)

lemma loop_yVel:
  assumes "0 \<le> delta f" "s_yVel s \<le> 0"
  shows "s_yVel (scanPatternLoop f c origin np pattern s) \<le> 0
       \<and> (s_yVel (scanPatternLoop f c origin np pattern s) = 0
            \<or> s_yVel s - 0.5 \<le> s_yVel (scanPatternLoop f c origin np pattern s))"
  using assms
proof (induction pattern arbitrary: s)
  case Nil
  then show ?case by simp
next
  case (Cons p pattern)
  obtain angle distance where p: "p = (angle, distance)" by (cases p)
  let ?s1 = "s\<lparr>casts := casts s @ [(rayStart c np (s_lastPosition s) angle distance, rayFar c)]\<rparr>"
  have s1: "s_yVel ?s1 = s_yVel s" by simp
  show ?case
    using Cons.IH [of ?s1] Cons.prems accept_yVel [of f ?s1 c origin np]
    by (simp add: p scanPatternLoop.simps(2) Let_def split: list.splits)
qed

lemma tick_yVel:
  assumes "0 \<le> delta f" "yVel k \<le> 0"
  shows "yVel (t_closure (tick f k c)) \<le> 0
       \<and> (yVel (t_closure (tick f k c)) = 0 \<or> yVel k - 0.5 \<le> yVel (t_closure (tick f k c)))"
proof -
  have scan: "yVel (t_closure (afterScan f k' c' (scanPatternLoop f c' origin np scanPattern (beforeScan k' c' lp)))) \<le> 0
      \<and> (yVel (t_closure (afterScan f k' c' (scanPatternLoop f c' origin np scanPattern (beforeScan k' c' lp)))) = 0
          \<or> yVel k - 0.5 \<le> yVel (t_closure (afterScan f k' c' (scanPatternLoop f c' origin np scanPattern (beforeScan k' c' lp)))))"
    if "yVel k' = yVel k" for k' c' origin np lp
    using loop_yVel [of f "beforeScan k' c' lp" c' origin np scanPattern] assms that
    by (simp add: afterScan_def beforeScan_def Let_def)
  show ?thesis
  proof (cases "enabled c")
    case False
    then show ?thesis using assms by (simp add: tick_def returned_def)
  next
    case on: True
    show ?thesis
    proof (cases "xzOrigin c")
      case None
      then show ?thesis
        using on assms by (simp add: tick_def returned_def threw_def)
    next
      case (Some origin)
      show ?thesis
      proof (cases "lastPosition c")
        case None
        then show ?thesis
          using on Some assms by (simp add: tick_uninitialised [of c origin] returned_def)
      next
        case lp: (Some lastPos)
        show ?thesis
        proof (cases "reachesScan f c origin lastPos")
          case True
          then show ?thesis
            using scan [of k c origin "samplePosition f c origin" lastPos]
            by (simp add: tick_scan)
        next
          case False
          have same: "c\<lparr>lastPosition := Some lastPos\<rparr> = c"
            using lp by simp
          have "tick f k c = returned k c"
            using False on Some lp
            by (auto simp: reachesScan_def tick_def Let_def same)
          then show ?thesis
            using assms by (simp add: returned_def)
        qed
      qed
    qed
  qed
qed

end
